theory Spec2Isabelle
  imports Complex_Main "HOL-Library.Multiset" "HOL-Library.List_Lexorder" "HOL-Library.Char_ord"
begin

section \<open>JavaScript values and built-ins used by both apps\<close>

text \<open>
  React state that holds \<^verbatim>\<open>null\<close> or a string is a \<^typ>\<open>string option\<close>. The
  source tests such values for truthiness (\<^verbatim>\<open>if (error)\<close>, \<^verbatim>\<open>!userId\<close>): \<^verbatim>\<open>null\<close>
  and the empty string are falsy.
\<close>

definition truthy :: "string option \<Rightarrow> bool" where
  "truthy v = (case v of None \<Rightarrow> False | Some s \<Rightarrow> s \<noteq> [])"

text \<open>
  \<^verbatim>\<open>Array.prototype.sort\<close> with a comparator: a stable sort. Which pairs an engine
  compares is its own business; here the elements are placed one by one from the
  left, each compared, as \<open>cmp later earlier\<close>, with those already placed, and put
  before the first of them it compares less than. The comparators of the two apps
  return a number on every pair of documents of the data model and never throw.
\<close>

fun insert_by :: "('a \<Rightarrow> 'a \<Rightarrow> int) \<Rightarrow> 'a \<Rightarrow> 'a list \<Rightarrow> 'a list" where
  "insert_by cmp x [] = [x]"
| "insert_by cmp x (y # ys) = (if cmp x y < 0 then x # y # ys else y # insert_by cmp x ys)"

definition array_sort :: "('a \<Rightarrow> 'a \<Rightarrow> int) \<Rightarrow> 'a list \<Rightarrow> 'a list" where
  "array_sort cmp xs = foldl (\<lambda>placed x. insert_by cmp x placed) [] xs"

text \<open>
  The outcome of the SDK calls of the initialisation effect, in the order the effects
  make them: each may throw, with a message.
\<close>

datatype sdk_init =
    InitOk
  | InitializeAppThrows string
  | GetFirestoreThrows string
  | GetAuthThrows string

datatype auth_call = SignInWithCustomToken string | SignInAnonymously

text \<open>
  \<^verbatim>\<open>if (initialAuthToken) signInWithCustomToken(auth, initialAuthToken) else
  signInAnonymously(auth)\<close>, the call both apps make.
\<close>

definition signIn :: "string option \<Rightarrow> auth_call" where
  "signIn token =
     (if truthy token then SignInWithCustomToken (case token of Some t \<Rightarrow> t | None \<Rightarrow> [])
      else SignInAnonymously)"

text \<open>
  What both components hold: the \<^verbatim>\<open>error\<close> and \<^verbatim>\<open>userId\<close> state, and the handles
  of the SDK. \<open>db\<close> says that the Firestore handle has been assigned, \<open>authListener\<close>
  that \<^verbatim>\<open>onAuthStateChanged\<close> has registered its callback, \<open>signInCalls\<close> lists the
  sign-in calls made and \<open>signIns\<close> counts those whose promise has not settled,
  \<open>snapshotListener\<close> that \<^verbatim>\<open>onSnapshot\<close> has registered the callbacks and its
  \<^verbatim>\<open>unsubscribe\<close> has not been called.
\<close>

record app_state =
  error :: "string option"
  userId :: "string option"
  db :: bool
  authListener :: bool
  signInCalls :: "auth_call list"
  signIns :: nat
  snapshotListener :: bool

record env =
  appId :: string
  initialAuthToken :: "string option"
  sdkInit :: sdk_init

text \<open>The events the SDK delivers to the callbacks and promises of a component.\<close>

datatype 'd sdk_event =
    AuthStateChanged "string option"
  | SignInResolved
  | SignInRejected string
  | SnapshotNext "'d list"
  | SnapshotError string


section \<open>The customer app (\<^verbatim>\<open>frontend/src/App.jsx\<close>)\<close>

text \<open>
  A store as the snapshot callback builds it, \<^verbatim>\<open>{ id: doc.id, ...doc.data() }\<close>,
  with the fields the component reads, typed as in the data model. \<open>store_name\<close> is
  \<open>None\<close> for a document without a name, which the comparator reads as
  \<^verbatim>\<open>a.name || ""\<close>.
\<close>

record store =
  store_id :: string
  store_name :: "string option"
  store_category :: string
  store_description :: string
  rating :: rat
  deliveryTime :: rat

record customer_state = app_state +
  stores :: "store list"
  isLoading :: bool
  authReady :: bool

text \<open>
  The globals the module reads. \<open>configKeys\<close> is
  \<^verbatim>\<open>Object.keys(firebaseConfig).length\<close>; \<open>localeCompare\<close> is the runtime's
  \<^verbatim>\<open>String.prototype.localeCompare\<close>, whose collation belongs to the host.
\<close>

record customer_env = env +
  configKeys :: nat
  localeCompare :: "string \<Rightarrow> string \<Rightarrow> int"

definition customer_initial :: customer_state where
  "customer_initial =
     \<lparr>error = None, userId = None, db = False, authListener = False, signInCalls = [],
      signIns = 0, snapshotListener = False, stores = [], isLoading = True,
      authReady = False\<rparr>"

text \<open>The \<^verbatim>\<open>catch\<close> block of \<^verbatim>\<open>initFirebase\<close>.\<close>

definition initFirebase_catch :: "string \<Rightarrow> customer_state \<Rightarrow> customer_state" where
  "initFirebase_catch msg s =
     s\<lparr>error := Some (''Initialization Failed: '' @ msg), isLoading := False,
       authReady := True\<rparr>"

text \<open>
  \<^verbatim>\<open>initFirebase\<close> up to its \<^verbatim>\<open>await\<close>: the configuration check, the SDK calls
  (\<^verbatim>\<open>initializeApp\<close>, \<^verbatim>\<open>getAuth\<close>, \<^verbatim>\<open>getFirestore\<close>; the handles are stored only
  after all three), the auth listener and the sign-in call, whose promise is pending.
\<close>

definition initFirebase :: "customer_env \<Rightarrow> customer_state \<Rightarrow> customer_state" where
  "initFirebase e s =
     (if configKeys e = 0 then initFirebase_catch ''Firebase configuration is missing.'' s
      else
        (case sdkInit e of
           InitOk \<Rightarrow>
             s\<lparr>db := True, authListener := True,
               signInCalls := signInCalls s @ [signIn (initialAuthToken e)],
               signIns := Suc (signIns s)\<rparr>
         | InitializeAppThrows msg \<Rightarrow> initFirebase_catch msg s
         | GetFirestoreThrows msg \<Rightarrow> initFirebase_catch msg s
         | GetAuthThrows msg \<Rightarrow> initFirebase_catch msg s))"

text \<open>
  The data-fetch effect: \<^verbatim>\<open>if (!authReady || !firebaseRef.current.db) return;\<close>,
  then \<^verbatim>\<open>onSnapshot\<close>. An effect sees the state of the render it belongs to
  (\<open>rendered\<close>, here for \<^verbatim>\<open>authReady\<close>), while a ref is read as it is when the
  effect runs (\<open>db\<close>).
\<close>

definition fetch_stores :: "customer_state \<Rightarrow> customer_state \<Rightarrow> customer_state" where
  "fetch_stores rendered s =
     (if \<not> authReady rendered \<or> \<not> db s then s else s\<lparr>snapshotListener := True\<rparr>)"

text \<open>
  React after a state update: the component renders with the new state, and an
  effect whose dependencies changed has its cleanup run (\<^verbatim>\<open>unsubscribe()\<close>, when
  the last run subscribed) and runs again. The data-fetch effect depends on
  \<^verbatim>\<open>[authReady]\<close>.
\<close>

definition customer_commit :: "customer_state \<Rightarrow> customer_state \<Rightarrow> customer_state" where
  "customer_commit old new =
     (if authReady new \<noteq> authReady old then fetch_stores new (new\<lparr>snapshotListener := False\<rparr>)
      else new)"

text \<open>The comparator \<^verbatim>\<open>(a, b) => (a.name || "").localeCompare(b.name || "")\<close>.\<close>

definition name_or_empty :: "store \<Rightarrow> string" where
  "name_or_empty a = (case store_name a of None \<Rightarrow> [] | Some n \<Rightarrow> n)"

definition compare_stores :: "(string \<Rightarrow> string \<Rightarrow> int) \<Rightarrow> store \<Rightarrow> store \<Rightarrow> int" where
  "compare_stores lc a b = lc (name_or_empty a) (name_or_empty b)"

text \<open>
  The callbacks: of the auth listener, and the two of \<^verbatim>\<open>onSnapshot\<close>. The snapshot
  callback collects the documents, sorts them, and sets the list and the loading
  flag.
\<close>

definition customer_onAuthStateChanged :: "string option \<Rightarrow> customer_state \<Rightarrow> customer_state" where
  "customer_onAuthStateChanged user s = s\<lparr>userId := user, authReady := True\<rparr>"

definition customer_onNext :: "customer_env \<Rightarrow> store list \<Rightarrow> customer_state \<Rightarrow> customer_state" where
  "customer_onNext e docs s =
     s\<lparr>stores := array_sort (compare_stores (localeCompare e)) docs, isLoading := False\<rparr>"

definition customer_onError :: "customer_state \<Rightarrow> customer_state" where
  "customer_onError s =
     s\<lparr>error := Some ''Failed to fetch store catalog. Check Firestore Rules.'',
       isLoading := False\<rparr>"

text \<open>
  One event. The SDK delivers an event only to a callback that is registered, or to
  a promise that is pending; any other event changes nothing.
\<close>

definition customer_handle :: "customer_env \<Rightarrow> store sdk_event \<Rightarrow> customer_state \<Rightarrow> customer_state" where
  "customer_handle e ev s =
     (case ev of
        AuthStateChanged user \<Rightarrow>
          if authListener s then customer_onAuthStateChanged user s else s
      | SignInResolved \<Rightarrow> if 0 < signIns s then s\<lparr>signIns := signIns s - 1\<rparr> else s
      | SignInRejected msg \<Rightarrow>
          if 0 < signIns s then initFirebase_catch msg (s\<lparr>signIns := signIns s - 1\<rparr>) else s
      | SnapshotNext docs \<Rightarrow> if snapshotListener s then customer_onNext e docs s else s
      | SnapshotError msg \<Rightarrow> if snapshotListener s then customer_onError s else s)"

definition customer_step :: "customer_env \<Rightarrow> customer_state \<Rightarrow> store sdk_event \<Rightarrow> customer_state" where
  "customer_step e s ev = customer_commit s (customer_handle e ev s)"

text \<open>
  Mounting. After the first render, with the initial state, both effects run in
  order: the initialisation effect, which stores the handles and queues its state
  updates, then the data-fetch effect of that render, which sees \<^verbatim>\<open>authReady\<close> false
  and the ref as the first effect left it. Then the queued updates are committed.
\<close>

definition customer_mount :: "customer_env \<Rightarrow> customer_state" where
  "customer_mount e =
     customer_commit customer_initial
       (fetch_stores customer_initial (initFirebase e customer_initial))"

text \<open>
  A run: the events the mounted component receives, in order. Unmounting, which
  cancels both listeners, ends the run.
\<close>

definition customer_run :: "customer_env \<Rightarrow> store sdk_event list \<Rightarrow> customer_state" where
  "customer_run e evs = foldl (customer_step e) (customer_mount e) evs"

text \<open>\<^verbatim>\<open>renderContent\<close>: what the component shows.\<close>

datatype customer_view =
    ApplicationError string
  | LoadingDeliveryOptions
  | NoStoresFound
  | StoreGrid "store list"

definition renderContent :: "customer_state \<Rightarrow> customer_view" where
  "renderContent s =
     (if truthy (error s) then ApplicationError (case error s of Some m \<Rightarrow> m | None \<Rightarrow> [])
      else if isLoading s then LoadingDeliveryOptions
      else if stores s = [] then NoStoresFound
      else StoreGrid (stores s))"


section \<open>The admin app (\<^verbatim>\<open>admin/src/App.jsx\<close>)\<close>

subsection \<open>Configuration\<close>

text \<open>
  \<^verbatim>\<open>firebaseConfig\<close> is the constant \<^verbatim>\<open>FALLBACK_FIREBASE_CONFIG\<close> itself (no
  \<^verbatim>\<open>__firebase_config\<close>, or one that does not parse), or the value \<^verbatim>\<open>JSON.parse\<close>
  returned, of which the component reads \<^verbatim>\<open>projectId\<close> only (\<open>None\<close> when there is
  none). The source tells the two apart by identity
  (\<^verbatim>\<open>firebaseConfig === FALLBACK_FIREBASE_CONFIG\<close>).
\<close>

datatype config = FALLBACK_FIREBASE_CONFIG | Parsed "string option"

definition projectId :: "config \<Rightarrow> string option" where
  "projectId c = (case c of FALLBACK_FIREBASE_CONFIG \<Rightarrow> Some ''mock-project-id'' | Parsed p \<Rightarrow> p)"

text \<open>
  \<open>randomUUID n\<close> is what the \<open>n\<close>-th call of \<^verbatim>\<open>crypto.randomUUID()\<close> returns.
\<close>

record admin_env = env +
  firebaseConfig :: config
  randomUUID :: "nat \<Rightarrow> string"

definition getProductCollectionPath :: "string \<Rightarrow> string" where
  "getProductCollectionPath a = ''/artifacts/'' @ a @ ''/public/data/products''"

subsection \<open>Data\<close>

text \<open>
  The form state \<^verbatim>\<open>newProduct\<close>. A JavaScript number is a double; a price here is
  the exact rational value of that double.
\<close>

record draft =
  name :: string
  description :: string
  price :: rat
  category :: string

definition empty_draft :: draft where
  "empty_draft = \<lparr>name = [], description = [], price = 0, category = ''Main Dish''\<rparr>"

text \<open>
  The object given to \<^verbatim>\<open>addDoc\<close> spreads the draft and adds three fields, and a
  product read back from a snapshot has the fields of its document and the
  document's id. \<open>'ts\<close> is what \<^verbatim>\<open>createdAt\<close> holds: the sentinel of
  \<^verbatim>\<open>serverTimestamp()\<close> in a write, a field of the document in a read.
\<close>

record 'ts product_data = draft +
  available :: bool
  createdAt :: 'ts
  createdBy :: "string option"

datatype sentinel = ServerTimestamp

text \<open>
  The \<^verbatim>\<open>createdAt\<close> of a document read back, as in the data model: a Firestore
  \<^verbatim>\<open>Timestamp\<close> with its \<^verbatim>\<open>toMillis()\<close>, or nothing (\<^verbatim>\<open>null\<close> in the local snapshot of
  a write the server has not yet stamped).
\<close>

datatype created_field = NoTimestamp | Timestamp int

record product = "created_field product_data" +
  product_id :: string

text \<open>
  The double nearest to a rational number, ties to the even significand, as
  \<^verbatim>\<open>parseFloat\<close> rounds the decimal it reads. \<open>binary_exponent v\<close> is the \<open>e\<close> with
  \<open>2 ^ e \<le> v < 2 ^ (e + 1)\<close> for a positive \<open>v\<close>; a double has 53 significant bits,
  and exponents from -1022. Numbers beyond the largest double are not modelled.
\<close>

function log2_floor :: "int \<Rightarrow> int" where
  "log2_floor n = (if n < 2 then 0 else 1 + log2_floor (n div 2))"
  by pat_completeness auto
termination
  by (relation "measure nat") auto

definition log2_ceil :: "int \<Rightarrow> int" where
  "log2_ceil n = (if n \<le> 1 then 0 else 1 + log2_floor (n - 1))"

definition binary_exponent :: "rat \<Rightarrow> int" where
  "binary_exponent v = (if 1 \<le> v then log2_floor \<lfloor>v\<rfloor> else - log2_ceil \<lceil>1 / v\<rceil>)"

definition round_half_even :: "rat \<Rightarrow> int" where
  "round_half_even r =
     (if r - of_int \<lfloor>r\<rfloor> < 1 / 2 then \<lfloor>r\<rfloor>
      else if 1 / 2 < r - of_int \<lfloor>r\<rfloor> then \<lfloor>r\<rfloor> + 1
      else if even \<lfloor>r\<rfloor> then \<lfloor>r\<rfloor>
      else \<lfloor>r\<rfloor> + 1)"

definition ulp :: "rat \<Rightarrow> rat" where
  "ulp v = 2 powi (max (binary_exponent v) (- 1022) - 52)"

definition nearest_double :: "rat \<Rightarrow> rat" where
  "nearest_double v =
     (if v = 0 then 0
      else if v < 0 then - (of_int (round_half_even (- v / ulp (- v))) * ulp (- v))
      else of_int (round_half_even (v / ulp v)) * ulp v)"

text \<open>
  \<^verbatim>\<open>parseFloat(newProduct.price.toFixed(2))\<close>: \<^verbatim>\<open>toFixed\<close> takes the integer \<open>n\<close>
  with \<open>n / 100\<close> nearest to the number, the larger of two, and works on the absolute
  value of a negative number; \<^verbatim>\<open>parseFloat\<close> reads the decimal back as a double.
\<close>

definition toFixed2 :: "rat \<Rightarrow> rat" where
  "toFixed2 x =
     nearest_double
       (if x < 0 then - (of_int \<lfloor>(- x) * 100 + 1 / 2\<rfloor> / 100)
        else of_int \<lfloor>x * 100 + 1 / 2\<rfloor> / 100)"

subsection \<open>Component state\<close>

text \<open>
  \<open>addDocCalls\<close> lists the \<^verbatim>\<open>addDoc\<close> calls made, each with its collection path and
  its document; \<open>addDocPending\<close> counts those whose promise has not settled;
  \<open>uuidsDrawn\<close> counts the calls of \<^verbatim>\<open>crypto.randomUUID()\<close>.
\<close>

record admin_state = app_state +
  products :: "product list"
  loading :: bool
  isAuthReady :: bool
  newProduct :: draft
  isSubmitting :: bool
  addDocCalls :: "(string \<times> sentinel product_data) list"
  addDocPending :: nat
  uuidsDrawn :: nat

definition admin_initial :: admin_state where
  "admin_initial =
     \<lparr>error = None, userId = None, db = False, authListener = False, signInCalls = [],
      signIns = 0, snapshotListener = False, products = [], loading = True,
      isAuthReady = False, newProduct = empty_draft, isSubmitting = False,
      addDocCalls = [], addDocPending = 0, uuidsDrawn = 0\<rparr>"

subsection \<open>Initialisation and authentication\<close>

text \<open>
  The initialisation effect. \<^verbatim>\<open>db\<close> is a module variable, assigned by
  \<^verbatim>\<open>db = getFirestore(app)\<close> before \<^verbatim>\<open>getAuth\<close> is called.
\<close>

definition admin_init_catch :: "string \<Rightarrow> admin_state \<Rightarrow> admin_state" where
  "admin_init_catch msg s =
     s\<lparr>error := Some (''Initialization Error: '' @ msg @ ''.''), isAuthReady := True\<rparr>"

definition admin_init :: "admin_env \<Rightarrow> admin_state \<Rightarrow> admin_state" where
  "admin_init e s =
     (if \<not> truthy (projectId (firebaseConfig e)) then
        s\<lparr>error := Some ''Initialization Failed: Firebase configuration is missing or invalid.'',
          isAuthReady := True\<rparr>
      else
        (case sdkInit e of
           InitOk \<Rightarrow> s\<lparr>db := True, authListener := True\<rparr>
         | InitializeAppThrows msg \<Rightarrow> admin_init_catch msg s
         | GetFirestoreThrows msg \<Rightarrow> admin_init_catch msg s
         | GetAuthThrows msg \<Rightarrow> admin_init_catch msg (s\<lparr>db := True\<rparr>)))"

text \<open>
  The callback of \<^verbatim>\<open>onAuthStateChanged\<close> is asynchronous. With a user it sets the
  user id and marks auth ready. Without one it starts a sign-in and waits: when the
  promise resolves it marks auth ready, and when it rejects (the inner \<^verbatim>\<open>catch\<close>) it
  first sets the user id to a fresh \<^verbatim>\<open>crypto.randomUUID()\<close>.
\<close>

definition admin_onAuthStateChanged :: "admin_env \<Rightarrow> string option \<Rightarrow> admin_state \<Rightarrow> admin_state" where
  "admin_onAuthStateChanged e user s =
     (case user of
        Some uid \<Rightarrow> s\<lparr>userId := Some uid, isAuthReady := True\<rparr>
      | None \<Rightarrow>
          s\<lparr>signInCalls := signInCalls s @ [signIn (initialAuthToken e)],
            signIns := Suc (signIns s)\<rparr>)"

definition admin_signIn_resolved :: "admin_state \<Rightarrow> admin_state" where
  "admin_signIn_resolved s = s\<lparr>isAuthReady := True\<rparr>"

definition admin_signIn_rejected :: "admin_env \<Rightarrow> admin_state \<Rightarrow> admin_state" where
  "admin_signIn_rejected e s =
     s\<lparr>userId := Some (randomUUID e (uuidsDrawn s)), uuidsDrawn := Suc (uuidsDrawn s),
       isAuthReady := True\<rparr>"

subsection \<open>The Firestore listener\<close>

text \<open>
  The listener effect: \<^verbatim>\<open>if (!isAuthReady || !db || !userId || error) return;\<close>, then
  \<^verbatim>\<open>onSnapshot\<close>. It depends on \<^verbatim>\<open>[isAuthReady, userId, error]\<close>. The effect sees
  the state of the render it belongs to (\<open>rendered\<close>) and the module variable
  \<^verbatim>\<open>db\<close> as it is when the effect runs.
\<close>

definition listen_products :: "admin_state \<Rightarrow> admin_state \<Rightarrow> admin_state" where
  "listen_products rendered s =
     (if \<not> isAuthReady rendered \<or> \<not> db s \<or> \<not> truthy (userId rendered) \<or> truthy (error rendered)
      then s
      else s\<lparr>snapshotListener := True\<rparr>)"

definition admin_commit :: "admin_state \<Rightarrow> admin_state \<Rightarrow> admin_state" where
  "admin_commit old new =
     (if isAuthReady new \<noteq> isAuthReady old \<or> userId new \<noteq> userId old \<or> error new \<noteq> error old
      then listen_products new (new\<lparr>snapshotListener := False\<rparr>)
      else new)"

text \<open>
  The comparator
  \<^verbatim>\<open>(a, b) => (b.createdAt?.toMillis() || 0) - (a.createdAt?.toMillis() || 0)\<close>.
\<close>

definition toMillis_or_0 :: "created_field \<Rightarrow> int" where
  "toMillis_or_0 c =
     (case c of NoTimestamp \<Rightarrow> 0 | Timestamp t \<Rightarrow> (if t = 0 then 0 else t))"

definition compare_products :: "product \<Rightarrow> product \<Rightarrow> int" where
  "compare_products a b = toMillis_or_0 (createdAt b) - toMillis_or_0 (createdAt a)"

text \<open>
  The snapshot callback. Its body is a \<^verbatim>\<open>try\<close> block: the documents are mapped and
  sorted, and the list and the loading flag are set. On documents of the data model
  nothing in the block throws, so the \<^verbatim>\<open>catch\<close> block, \<open>admin_onNext_catch\<close>, is
  not entered.
\<close>

definition admin_onNext :: "product list \<Rightarrow> admin_state \<Rightarrow> admin_state" where
  "admin_onNext docs s =
     s\<lparr>products := array_sort compare_products docs, loading := False\<rparr>"

definition admin_onNext_catch :: "string \<Rightarrow> admin_state \<Rightarrow> admin_state" where
  "admin_onNext_catch msg s =
     s\<lparr>error := Some (''Data fetch failed: '' @ msg @ ''. Please verify Firestore rules.''),
       loading := False\<rparr>"

text \<open>The error callback of \<^verbatim>\<open>onSnapshot\<close>.\<close>

definition admin_onError :: "string \<Rightarrow> admin_state \<Rightarrow> admin_state" where
  "admin_onError msg s =
     s\<lparr>error := Some (''Real-time data error: '' @ msg @ ''. Please verify Firestore rules.''),
       loading := False\<rparr>"

subsection \<open>The form\<close>

text \<open>
  \<^verbatim>\<open>handleInputChange\<close>, by the control that changed. The price control has type
  \<^verbatim>\<open>number\<close>: its value goes through \<^verbatim>\<open>parseFloat(value) || 0\<close>, and \<open>None\<close> stands
  for a value that does not parse (\<^verbatim>\<open>NaN\<close>).
\<close>

datatype input_change =
    NameInput string
  | DescriptionInput string
  | PriceInput "rat option"
  | CategorySelect string

definition handleInputChange :: "input_change \<Rightarrow> admin_state \<Rightarrow> admin_state" where
  "handleInputChange c s =
     s\<lparr>newProduct :=
         (case c of
            NameInput v \<Rightarrow> (newProduct s)\<lparr>name := v\<rparr>
          | DescriptionInput v \<Rightarrow> (newProduct s)\<lparr>description := v\<rparr>
          | PriceInput v \<Rightarrow> (newProduct s)\<lparr>price := (case v of None \<Rightarrow> 0 | Some x \<Rightarrow> x)\<rparr>
          | CategorySelect v \<Rightarrow> (newProduct s)\<lparr>category := v\<rparr>)\<rparr>"

text \<open>The first \<^verbatim>\<open>if\<close> of \<^verbatim>\<open>handleSubmit\<close>: not ready, or the mock configuration.\<close>

definition submit_prevented :: "admin_env \<Rightarrow> admin_state \<Rightarrow> bool" where
  "submit_prevented e s \<longleftrightarrow>
     isSubmitting s \<or> \<not> db s \<or> \<not> truthy (userId s) \<or> \<not> isAuthReady s \<or> truthy (error s) \<or>
     firebaseConfig e = FALLBACK_FIREBASE_CONFIG"

text \<open>The document of the \<^verbatim>\<open>addDoc\<close> call.\<close>

definition new_document :: "admin_state \<Rightarrow> sentinel product_data" where
  "new_document s =
     \<lparr>name = name (newProduct s), description = description (newProduct s),
      price = toFixed2 (price (newProduct s)), category = category (newProduct s),
      available = True, createdAt = ServerTimestamp, createdBy = userId s\<rparr>"

text \<open>
  \<^verbatim>\<open>handleSubmit\<close> up to its \<^verbatim>\<open>await\<close>: the two guards, then \<^verbatim>\<open>setError(null)\<close>,
  \<^verbatim>\<open>setIsSubmitting(true)\<close> and the \<^verbatim>\<open>addDoc\<close> call, whose promise is pending.
\<close>

definition handleSubmit :: "admin_env \<Rightarrow> admin_state \<Rightarrow> admin_state" where
  "handleSubmit e s =
     (if submit_prevented e s then
        (if firebaseConfig e = FALLBACK_FIREBASE_CONFIG then
           s\<lparr>error := Some ''Write operation denied: Cannot write to Firestore when using the external mock configuration. Data saving only works inside Canvas.''\<rparr>
         else s)
      else if name (newProduct s) = [] \<or> price (newProduct s) \<le> 0 then
        s\<lparr>error := Some ''Product name is required and price must be greater than 0.''\<rparr>
      else
        s\<lparr>error := None, isSubmitting := True,
          addDocCalls := addDocCalls s @ [(getProductCollectionPath (appId e), new_document s)],
          addDocPending := Suc (addDocPending s)\<rparr>)"

text \<open>
  The rest of \<^verbatim>\<open>handleSubmit\<close>, once the promise of \<^verbatim>\<open>addDoc\<close> has settled: the
  reset of the draft, or the \<^verbatim>\<open>catch\<close> block; then \<^verbatim>\<open>finally\<close>.
\<close>

definition addDoc_resolved :: "admin_state \<Rightarrow> admin_state" where
  "addDoc_resolved s = s\<lparr>newProduct := empty_draft, isSubmitting := False\<rparr>"

definition addDoc_rejected :: "string \<Rightarrow> admin_state \<Rightarrow> admin_state" where
  "addDoc_rejected msg s =
     s\<lparr>error := Some (''Failed to add product: '' @ msg @ ''. Check your Firebase rules.''),
       isSubmitting := False\<rparr>"

subsection \<open>Events\<close>

datatype admin_event =
    Sdk "product sdk_event"
  | InputChange input_change
  | Submit
  | AddDocResolved
  | AddDocRejected string

text \<open>
  As in the customer app, an event of the SDK reaches only a registered callback or a
  pending promise. The form events are taken at any time: the guards of
  \<^verbatim>\<open>handleSubmit\<close> are what is verified, not the \<^verbatim>\<open>disabled\<close> attribute or the
  browser's own validation of the form.
\<close>

definition admin_handle :: "admin_env \<Rightarrow> admin_event \<Rightarrow> admin_state \<Rightarrow> admin_state" where
  "admin_handle e ev s =
     (case ev of
        Sdk (AuthStateChanged user) \<Rightarrow>
          if authListener s then admin_onAuthStateChanged e user s else s
      | Sdk SignInResolved \<Rightarrow>
          if 0 < signIns s then admin_signIn_resolved (s\<lparr>signIns := signIns s - 1\<rparr>) else s
      | Sdk (SignInRejected msg) \<Rightarrow>
          if 0 < signIns s then admin_signIn_rejected e (s\<lparr>signIns := signIns s - 1\<rparr>) else s
      | Sdk (SnapshotNext docs) \<Rightarrow> if snapshotListener s then admin_onNext docs s else s
      | Sdk (SnapshotError msg) \<Rightarrow> if snapshotListener s then admin_onError msg s else s
      | InputChange c \<Rightarrow> handleInputChange c s
      | Submit \<Rightarrow> handleSubmit e s
      | AddDocResolved \<Rightarrow>
          if 0 < addDocPending s then addDoc_resolved (s\<lparr>addDocPending := addDocPending s - 1\<rparr>)
          else s
      | AddDocRejected msg \<Rightarrow>
          if 0 < addDocPending s then addDoc_rejected msg (s\<lparr>addDocPending := addDocPending s - 1\<rparr>)
          else s)"

definition admin_step :: "admin_env \<Rightarrow> admin_state \<Rightarrow> admin_event \<Rightarrow> admin_state" where
  "admin_step e s ev = admin_commit s (admin_handle e ev s)"

text \<open>
  The mounted component and its runs, as in the customer app: both effects run
  after the first render, the listener effect with the initial state of that
  render, and the queued updates are committed. A run is the life of the component
  while it is mounted; unmounting ends it and cancels both listeners.
\<close>

definition admin_mount :: "admin_env \<Rightarrow> admin_state" where
  "admin_mount e =
     admin_commit admin_initial (listen_products admin_initial (admin_init e admin_initial))"

definition admin_run :: "admin_env \<Rightarrow> admin_event list \<Rightarrow> admin_state" where
  "admin_run e evs = foldl (admin_step e) (admin_mount e) evs"

subsection \<open>What is rendered\<close>

text \<open>
  The \<^verbatim>\<open>disabled\<close> attribute of the submit button, and the main render: the error
  screen alone when \<^verbatim>\<open>error\<close> is set, else the form and the list.
\<close>

definition submit_disabled :: "admin_env \<Rightarrow> admin_state \<Rightarrow> bool" where
  "submit_disabled e s \<longleftrightarrow>
     isSubmitting s \<or> \<not> isAuthReady s \<or> \<not> truthy (userId s) \<or>
     firebaseConfig e = FALLBACK_FIREBASE_CONFIG"

datatype product_list_view = LoadingProducts | NoProducts | ProductList "product list"

datatype admin_view =
    AdminError string
  | AdminPanel bool product_list_view

definition renderProductList :: "admin_state \<Rightarrow> product_list_view" where
  "renderProductList s =
     (if loading s then LoadingProducts
      else if products s = [] then NoProducts
      else ProductList (products s))"

definition admin_render :: "admin_env \<Rightarrow> admin_state \<Rightarrow> admin_view" where
  "admin_render e s =
     (if truthy (error s) then AdminError (case error s of Some m \<Rightarrow> m | None \<Rightarrow> [])
      else AdminPanel (submit_disabled e s) (renderProductList s))"


section \<open>Notions used in the statements\<close>

text \<open>
  ECMAScript requires \<^verbatim>\<open>localeCompare\<close> to be a consistent comparator that orders all
  strings totally: one string is less than another exactly when the other is
  greater than it, and not being greater is transitive.
\<close>

definition consistent_comparator :: "(string \<Rightarrow> string \<Rightarrow> int) \<Rightarrow> bool" where
  "consistent_comparator lc \<longleftrightarrow>
     (\<forall>a b. lc a b < 0 \<longleftrightarrow> 0 < lc b a) \<and>
     (\<forall>a b c. lc a b \<le> 0 \<longrightarrow> lc b c \<le> 0 \<longrightarrow> lc a c \<le> 0)"

text \<open>
  The creation time the products are ordered by: the milliseconds of the timestamp,
  and 0 for a product without one.
\<close>

definition created_millis :: "product \<Rightarrow> int" where
  "created_millis p = (case createdAt p of Timestamp t \<Rightarrow> t | NoTimestamp \<Rightarrow> 0)"

text \<open>
  The guard of each listener effect, as a property of a state: a registered snapshot
  listener has passed it.
\<close>

definition customer_inv :: "customer_state \<Rightarrow> bool" where
  "customer_inv s \<longleftrightarrow> (snapshotListener s \<longrightarrow> authReady s \<and> db s)"

definition admin_inv :: "admin_state \<Rightarrow> bool" where
  "admin_inv s \<longleftrightarrow>
     (snapshotListener s \<longrightarrow> isAuthReady s \<and> db s \<and> truthy (userId s) \<and> \<not> truthy (error s))"

text \<open>The error screen is what is shown.\<close>

definition customer_shows_error :: "customer_state \<Rightarrow> bool" where
  "customer_shows_error s =
     (case renderContent s of ApplicationError m \<Rightarrow> True | _ \<Rightarrow> False)"

definition admin_shows_error :: "admin_env \<Rightarrow> admin_state \<Rightarrow> bool" where
  "admin_shows_error e s = (case admin_render e s of AdminError m \<Rightarrow> True | _ \<Rightarrow> False)"

text \<open>
  What every \<^verbatim>\<open>addDoc\<close> call of the component carries besides the draft: the
  products collection of the tenant, \<^verbatim>\<open>available: true\<close>, the server timestamp
  sentinel and an identity.
\<close>

definition carries_available :: "admin_env \<Rightarrow> string \<times> sentinel product_data \<Rightarrow> bool" where
  "carries_available e c \<longleftrightarrow>
     fst c = getProductCollectionPath (appId e) \<and> available (snd c) \<and>
     createdAt (snd c) = ServerTimestamp \<and> truthy (createdBy (snd c))"

text \<open>
  The admin component after an error: the error is set, nothing is loading and the
  snapshot listener is gone.
\<close>

definition admin_stopped :: "admin_state \<Rightarrow> bool" where
  "admin_stopped s \<longleftrightarrow> truthy (error s) \<and> \<not> loading s \<and> \<not> snapshotListener s"

section \<open>Concrete scenarios\<close>

text \<open>
  A collation for the scenarios: strings compared unit by unit, a proper prefix first.
\<close>

definition ordinal_compare :: "string \<Rightarrow> string \<Rightarrow> int" where
  "ordinal_compare a b = (if a = b then 0 else if a < b then - 1 else 1)"

text \<open>Tenant \<open>t1\<close>, a usable configuration, no credential token.\<close>

definition customer_env_t1 :: customer_env where
  "customer_env_t1 =
     \<lparr>appId = ''t1'', initialAuthToken = None, sdkInit = InitOk, configKeys = 6,
      localeCompare = ordinal_compare\<rparr>"

definition zeta_mart :: store where
  "zeta_mart =
     \<lparr>store_id = ''s1'', store_name = Some ''Zeta Mart'', store_category = ''Grocery'',
      store_description = [], rating = 4, deliveryTime = 30\<rparr>"

definition alpha_deli :: store where
  "alpha_deli =
     \<lparr>store_id = ''s2'', store_name = Some ''Alpha Deli'', store_category = ''Food'',
      store_description = [], rating = 9 / 2, deliveryTime = 20\<rparr>"

text \<open>The admin app with a parsed configuration, and with the mock one.\<close>

definition admin_env_real :: admin_env where
  "admin_env_real =
     \<lparr>appId = ''t1'', initialAuthToken = None, sdkInit = InitOk,
      firebaseConfig = Parsed (Some ''fresh-eats''), randomUUID = (\<lambda>n. ''mock-uuid'')\<rparr>"

definition admin_env_mock :: admin_env where
  "admin_env_mock =
     \<lparr>appId = ''fresh-eats-admin-dev'', initialAuthToken = None, sdkInit = InitOk,
      firebaseConfig = FALLBACK_FIREBASE_CONFIG, randomUUID = (\<lambda>n. ''mock-uuid'')\<rparr>"

text \<open>A signed-in admin who has typed a name, and then a price.\<close>

definition soup_named :: admin_state where
  "soup_named =
     admin_run admin_env_real
       [Sdk (AuthStateChanged (Some ''admin-1'')), InputChange (NameInput ''Soup'')]"

definition soup_ready :: admin_state where
  "soup_ready = admin_step admin_env_real soup_named (InputChange (PriceInput (Some (5 / 2))))"

text \<open>
  An authentication attempt that fails, and the form filled in and submitted.
\<close>

definition auth_fails :: "admin_event list" where
  "auth_fails =
     [Sdk (AuthStateChanged None), Sdk (SignInRejected ''auth/network-request-failed'')]"

definition submit_soup :: "admin_event list" where
  "submit_soup =
     [InputChange (NameInput ''Soup''), InputChange (PriceInput (Some (5 / 2))), Submit]"

text \<open>The submission of that draft, when the \<^verbatim>\<open>addDoc\<close> call is rejected.\<close>

definition soup_failed :: admin_state where
  "soup_failed =
     admin_step admin_env_real (admin_step admin_env_real soup_ready Submit)
       (AddDocRejected ''Missing or insufficient permissions'')"

text \<open>A product as read back, stamped or not yet stamped.\<close>

definition product_doc :: "string \<Rightarrow> created_field \<Rightarrow> product" where
  "product_doc i c =
     \<lparr>name = ''Soup'', description = [], price = 5 / 2, category = ''Main Dish'',
      available = True, createdAt = c, createdBy = Some ''admin-1'', product_id = i\<rparr>"



section \<open>Evaluation and frame lemmas\<close>

lemmas admin_defs =
  admin_run_def admin_mount_def admin_step_def admin_handle_def admin_commit_def
  admin_init_def admin_init_catch_def admin_initial_def listen_products_def
  admin_onAuthStateChanged_def admin_signIn_resolved_def admin_signIn_rejected_def
  admin_onError_def handleInputChange_def handleSubmit_def
  submit_prevented_def addDoc_resolved_def addDoc_rejected_def empty_draft_def
  truthy_def projectId_def signIn_def getProductCollectionPath_def

lemma admin_commit_frame:
  "addDocCalls (admin_commit s t) = addDocCalls t"
  "addDocPending (admin_commit s t) = addDocPending t"
  "newProduct (admin_commit s t) = newProduct t"
  "isSubmitting (admin_commit s t) = isSubmitting t"
  "error (admin_commit s t) = error t"
  "userId (admin_commit s t) = userId t"
  "isAuthReady (admin_commit s t) = isAuthReady t"
  "products (admin_commit s t) = products t"
  "loading (admin_commit s t) = loading t"
  "db (admin_commit s t) = db t"
  by (simp_all add: admin_commit_def listen_products_def)

lemma admin_run_snoc: "admin_run e (evs @ [ev]) = admin_step e (admin_run e evs) ev"
  by (simp add: admin_run_def)

lemma soup_named_eq:
  "soup_named =
     \<lparr>error = None, userId = Some ''admin-1'', db = True, authListener = True,
      signInCalls = [], signIns = 0, snapshotListener = True, products = [], loading = True,
      isAuthReady = True,
      newProduct = \<lparr>name = ''Soup'', description = [], price = 0, category = ''Main Dish''\<rparr>,
      isSubmitting = False, addDocCalls = [], addDocPending = 0, uuidsDrawn = 0\<rparr>"
  by (simp add: soup_named_def admin_env_real_def admin_defs)

lemma soup_ready_eq:
  "soup_ready =
     \<lparr>error = None, userId = Some ''admin-1'', db = True, authListener = True,
      signInCalls = [], signIns = 0, snapshotListener = True, products = [], loading = True,
      isAuthReady = True,
      newProduct = \<lparr>name = ''Soup'', description = [], price = 5 / 2, category = ''Main Dish''\<rparr>,
      isSubmitting = False, addDocCalls = [], addDocPending = 0, uuidsDrawn = 0\<rparr>"
  by (simp add: soup_ready_def soup_named_eq admin_env_real_def admin_defs)

lemma toFixed2_5_2: "toFixed2 (5 / 2) = 5 / 2"
  by code_simp

lemma soup_submitted_eq:
  "admin_step admin_env_real soup_ready Submit =
     \<lparr>error = None, userId = Some ''admin-1'', db = True, authListener = True,
      signInCalls = [], signIns = 0, snapshotListener = True, products = [], loading = True,
      isAuthReady = True,
      newProduct = \<lparr>name = ''Soup'', description = [], price = 5 / 2, category = ''Main Dish''\<rparr>,
      isSubmitting = True,
      addDocCalls =
        [(''/artifacts/t1/public/data/products'',
          \<lparr>name = ''Soup'', description = [], price = 5 / 2, category = ''Main Dish'',
           available = True, createdAt = ServerTimestamp, createdBy = Some ''admin-1''\<rparr>)],
      addDocPending = 1, uuidsDrawn = 0\<rparr>"
  by (simp add: soup_ready_eq admin_env_real_def admin_defs new_document_def toFixed2_5_2)

section \<open>Invariants of the runs\<close>

lemmas customer_defs =
  customer_run_def customer_mount_def customer_step_def customer_handle_def
  customer_commit_def fetch_stores_def initFirebase_def initFirebase_catch_def
  customer_initial_def customer_onAuthStateChanged_def customer_onError_def
  truthy_def signIn_def

lemma customer_commit_frame:
  "error (customer_commit s t) = error t"
  "isLoading (customer_commit s t) = isLoading t"
  "stores (customer_commit s t) = stores t"
  by (simp_all add: customer_commit_def fetch_stores_def)

lemma customer_run_snoc:
  "customer_run e (evs @ [ev]) = customer_step e (customer_run e evs) ev"
  by (simp add: customer_run_def)

lemma customer_inv_mount: "customer_inv (customer_mount e)"
  by (simp add: customer_inv_def customer_mount_def customer_commit_def fetch_stores_def
      initFirebase_def initFirebase_catch_def customer_initial_def split: sdk_init.splits)

lemma customer_inv_step: "customer_inv s \<Longrightarrow> customer_inv (customer_step e s ev)"
  by (cases ev)
    (auto simp: customer_inv_def customer_step_def customer_handle_def customer_commit_def
      fetch_stores_def initFirebase_catch_def customer_onAuthStateChanged_def
      customer_onError_def customer_onNext_def)

lemma customer_inv_run: "customer_inv (customer_run e evs)"
  by (induction evs rule: rev_induct)
    (simp_all add: customer_run_snoc customer_inv_step, simp add: customer_run_def customer_inv_mount)

lemma admin_inv_mount: "admin_inv (admin_mount e)"
  by (simp add: admin_inv_def admin_mount_def admin_commit_def listen_products_def
      admin_init_def admin_init_catch_def admin_initial_def split: sdk_init.splits)

lemma admin_inv_commit:
  assumes "admin_inv s" "db t = db s"
    and "isAuthReady t = isAuthReady s \<and> userId t = userId s \<and> error t = error s \<longrightarrow>
         snapshotListener t = snapshotListener s"
  shows "admin_inv (admin_commit s t)"
  using assms by (auto simp: admin_inv_def admin_commit_def listen_products_def)

lemma admin_handle_db: "db (admin_handle e ev s) = db s"
proof (cases ev)
  case (Sdk x)
  then show ?thesis
    by (cases x)
      (simp_all add: admin_handle_def admin_onAuthStateChanged_def admin_signIn_resolved_def
        admin_signIn_rejected_def admin_onNext_def admin_onError_def
        split: option.splits)
qed (simp_all add: admin_handle_def handleInputChange_def handleSubmit_def addDoc_resolved_def
    addDoc_rejected_def)

lemma admin_handle_listener:
  "snapshotListener (admin_handle e ev s) = snapshotListener s"
proof (cases ev)
  case (Sdk x)
  then show ?thesis
    by (cases x)
      (simp_all add: admin_handle_def admin_onAuthStateChanged_def admin_signIn_resolved_def
        admin_signIn_rejected_def admin_onNext_def admin_onError_def
        split: option.splits)
qed (simp_all add: admin_handle_def handleInputChange_def handleSubmit_def addDoc_resolved_def
    addDoc_rejected_def)

lemma admin_inv_step: "admin_inv s \<Longrightarrow> admin_inv (admin_step e s ev)"
  unfolding admin_step_def
  by (rule admin_inv_commit) (simp_all add: admin_handle_db admin_handle_listener)

lemma admin_inv_run: "admin_inv (admin_run e evs)"
proof (induction evs rule: rev_induct)
  case Nil
  show ?case by (simp add: admin_run_def admin_inv_mount)
next
  case (snoc ev evs)
  then show ?case by (simp add: admin_run_snoc admin_inv_step)
qed

section \<open>Where writes come from\<close>

lemma admin_step_calls:
  "addDocCalls (admin_step e s ev) =
     (if ev = Submit \<and> \<not> submit_prevented e s \<and> name (newProduct s) \<noteq> [] \<and>
         0 < price (newProduct s)
      then addDocCalls s @ [(getProductCollectionPath (appId e), new_document s)]
      else addDocCalls s)"
proof (cases ev)
  case (Sdk x)
  then show ?thesis
    by (cases x)
      (simp_all add: admin_step_def admin_commit_frame admin_handle_def
        admin_onAuthStateChanged_def admin_signIn_resolved_def admin_signIn_rejected_def
        admin_onNext_def admin_onError_def split: option.splits)
next
  case Submit
  then show ?thesis
    by (auto simp: admin_step_def admin_commit_frame admin_handle_def handleSubmit_def)
qed (simp_all add: admin_step_def admin_commit_frame admin_handle_def handleInputChange_def
    addDoc_resolved_def addDoc_rejected_def)

lemma mock_step_calls:
  "firebaseConfig e = FALLBACK_FIREBASE_CONFIG \<Longrightarrow>
   addDocCalls (admin_step e s ev) = addDocCalls s"
  by (simp add: admin_step_calls submit_prevented_def)

lemma mock_steps_calls:
  "firebaseConfig e = FALLBACK_FIREBASE_CONFIG \<Longrightarrow>
   addDocCalls (foldl (admin_step e) s evs) = addDocCalls s"
  by (induction evs arbitrary: s) (simp_all add: mock_step_calls)

lemma admin_mount_calls: "addDocCalls (admin_mount e) = []"
  by (simp add: admin_mount_def admin_commit_frame listen_products_def admin_init_def
      admin_init_catch_def admin_initial_def split: sdk_init.splits)

lemma admin_env_real_sel:
  "firebaseConfig admin_env_real = Parsed (Some ''fresh-eats'')"
  "appId admin_env_real = ''t1''"
  "initialAuthToken admin_env_real = None"
  "sdkInit admin_env_real = InitOk"
  "randomUUID admin_env_real n = ''mock-uuid''"
  by (simp_all add: admin_env_real_def)

lemma admin_env_mock_sel:
  "firebaseConfig admin_env_mock = FALLBACK_FIREBASE_CONFIG"
  "appId admin_env_mock = ''fresh-eats-admin-dev''"
  "initialAuthToken admin_env_mock = None"
  "sdkInit admin_env_mock = InitOk"
  "randomUUID admin_env_mock n = ''mock-uuid''"
  by (simp_all add: admin_env_mock_def)

lemma mock_auth_fails_eq:
  "admin_run admin_env_mock auth_fails =
     \<lparr>error = None, userId = Some ''mock-uuid'', db = True, authListener = True,
      signInCalls = [SignInAnonymously], signIns = 0, snapshotListener = True, products = [],
      loading = True, isAuthReady = True, newProduct = empty_draft,
      isSubmitting = False, addDocCalls = [], addDocPending = 0, uuidsDrawn = 1\<rparr>"
  by (simp add: auth_fails_def admin_env_mock_sel admin_defs)

lemma real_auth_fails_eq:
  "admin_run admin_env_real auth_fails =
     \<lparr>error = None, userId = Some ''mock-uuid'', db = True, authListener = True,
      signInCalls = [SignInAnonymously], signIns = 0, snapshotListener = True, products = [],
      loading = True, isAuthReady = True, newProduct = empty_draft,
      isSubmitting = False, addDocCalls = [], addDocPending = 0, uuidsDrawn = 1\<rparr>"
  by (simp add: auth_fails_def admin_env_real_sel admin_defs)

lemma admin_run_append:
  "admin_run e (evs @ evs') = foldl (admin_step e) (admin_run e evs) evs'"
  by (simp add: admin_run_def)

section \<open>Readiness before subscription\<close>

text \<open>
  Claim C2. In either app, in every state reached from the mounted component by any
  sequence of events, a registered snapshot listener comes with a readiness flag
  (\<^verbatim>\<open>authReady\<close>, \<^verbatim>\<open>isAuthReady\<close>) that is true: the subscription is never open
  before the flag is set. And a run of either listener effect in a render whose
  flag is false registers nothing, whatever the handles are.
\<close>

theorem subscription_waits_for_readiness:
  "(snapshotListener (customer_run ce cevs) \<longrightarrow> authReady (customer_run ce cevs)) \<and>
   (snapshotListener (admin_run ae aevs) \<longrightarrow> isAuthReady (admin_run ae aevs)) \<and>
   (\<not> authReady cr \<longrightarrow> fetch_stores cr cs = cs) \<and>
   (\<not> isAuthReady ar \<longrightarrow> listen_products ar a = a)"
  using customer_inv_run [of ce cevs] admin_inv_run [of ae aevs]
  by (simp add: customer_inv_def admin_inv_def fetch_stores_def listen_products_def)

theorem subscription_waits_for_readiness_witness:
  "db (customer_run customer_env_t1 []) \<and>
   \<not> authReady (customer_run customer_env_t1 []) \<and>
   \<not> snapshotListener (customer_run customer_env_t1 []) \<and>
   snapshotListener (customer_run customer_env_t1 [AuthStateChanged (Some ''u1'')]) \<and>
   authReady (customer_run customer_env_t1 [AuthStateChanged (Some ''u1'')]) \<and>
   db (admin_run admin_env_real []) \<and>
   \<not> isAuthReady (admin_run admin_env_real []) \<and>
   \<not> snapshotListener (admin_run admin_env_real []) \<and>
   snapshotListener (admin_run admin_env_real [Sdk (AuthStateChanged (Some ''admin-1''))]) \<and>
   isAuthReady (admin_run admin_env_real [Sdk (AuthStateChanged (Some ''admin-1''))]) \<and>
   fetch_stores customer_initial (initFirebase customer_env_t1 customer_initial) =
     initFirebase customer_env_t1 customer_initial"
  using subscription_waits_for_readiness [of customer_env_t1 "[AuthStateChanged (Some ''u1'')]"
      admin_env_real "[Sdk (AuthStateChanged (Some ''admin-1''))]" customer_initial
      "initFirebase customer_env_t1 customer_initial" admin_initial admin_initial]
  by (simp add: customer_env_t1_def customer_defs admin_env_real_def admin_defs)

section \<open>Read-only mode\<close>

text \<open>
  Claim C6. In the admin app under the mock configuration
  (\<^verbatim>\<open>firebaseConfig === FALLBACK_FIREBASE_CONFIG\<close>), in every state reached by any
  sequence of events, whatever the draft holds, the submit button is disabled and no
  \<^verbatim>\<open>addDoc\<close> call has been made.
\<close>

theorem mock_configuration_read_only:
  assumes "firebaseConfig e = FALLBACK_FIREBASE_CONFIG"
  shows "submit_disabled e (admin_run e evs) \<and> addDocCalls (admin_run e evs) = []"
  using assms
  by (simp add: submit_disabled_def admin_run_def mock_steps_calls admin_mount_calls)

theorem mock_configuration_read_only_witness:
  "firebaseConfig admin_env_mock = FALLBACK_FIREBASE_CONFIG \<and>
   submit_disabled admin_env_mock (admin_run admin_env_mock (auth_fails @ submit_soup)) \<and>
   addDocCalls (admin_run admin_env_mock (auth_fails @ submit_soup)) = [] \<and>
   newProduct (admin_run admin_env_mock (auth_fails @ submit_soup)) =
     \<lparr>name = ''Soup'', description = [], price = 5 / 2, category = ''Main Dish''\<rparr>"
proof -
  have "firebaseConfig admin_env_mock = FALLBACK_FIREBASE_CONFIG"
    by (simp add: admin_env_mock_def)
  from mock_configuration_read_only [OF this, of "auth_fails @ submit_soup"] this
  show ?thesis
    by (simp add: admin_run_append mock_auth_fails_eq submit_soup_def admin_step_def
        admin_handle_def handleInputChange_def handleSubmit_def admin_commit_frame
        empty_draft_def)
qed

section \<open>Authentication failure\<close>

text \<open>
  Claim C8 says that after a failed authentication attempt the admin app is read-only,
  so that no create-document call can be issued under the placeholder identity. With
  a parsed configuration it is not: after the failure the submit button is enabled and
  a valid submission calls \<^verbatim>\<open>addDoc\<close> with the placeholder as \<^verbatim>\<open>createdBy\<close>.
\<close>

theorem placeholder_identity_writes_counterexample:
  "userId (admin_run admin_env_real auth_fails) = Some ''mock-uuid'' \<and>
   error (admin_run admin_env_real auth_fails) = None \<and>
   \<not> submit_disabled admin_env_real (admin_run admin_env_real auth_fails) \<and>
   addDocCalls (admin_run admin_env_real (auth_fails @ submit_soup)) =
     [(''/artifacts/t1/public/data/products'',
       \<lparr>name = ''Soup'', description = [], price = 5 / 2, category = ''Main Dish'',
        available = True, createdAt = ServerTimestamp, createdBy = Some ''mock-uuid''\<rparr>)]"
  by (simp add: admin_run_append real_auth_fails_eq submit_soup_def submit_disabled_def
      admin_env_real_sel admin_step_def admin_handle_def handleInputChange_def handleSubmit_def
      submit_prevented_def admin_commit_def listen_products_def truthy_def empty_draft_def
      new_document_def toFixed2_5_2 getProductCollectionPath_def)

text \<open>
  Claim C8, amended. In the admin app, when the authentication attempt fails, the
  component sets the user id to a locally generated placeholder
  (\<^verbatim>\<open>crypto.randomUUID()\<close>) and marks auth ready, and leaves the error state as it
  was; under the mock configuration no \<^verbatim>\<open>addDoc\<close> call follows, whatever happens
  later. Read-only mode comes with the mock configuration, not with the failure.
\<close>

theorem auth_failure_placeholder_identity:
  assumes "0 < signIns s"
  shows "userId (admin_step e s (Sdk (SignInRejected msg))) = Some (randomUUID e (uuidsDrawn s)) \<and>
         isAuthReady (admin_step e s (Sdk (SignInRejected msg))) \<and>
         error (admin_step e s (Sdk (SignInRejected msg))) = error s \<and>
         (firebaseConfig e = FALLBACK_FIREBASE_CONFIG \<longrightarrow>
            addDocCalls (foldl (admin_step e) (admin_step e s (Sdk (SignInRejected msg))) later) =
              addDocCalls s)"
  using assms
  by (simp add: mock_steps_calls mock_step_calls)
    (simp add: admin_step_def admin_handle_def admin_signIn_rejected_def admin_commit_frame)

theorem auth_failure_placeholder_identity_witness:
  "signIns (admin_run admin_env_mock [Sdk (AuthStateChanged None)]) = 1 \<and>
   userId (admin_run admin_env_mock auth_fails) = Some ''mock-uuid'' \<and>
   isAuthReady (admin_run admin_env_mock auth_fails) \<and>
   error (admin_run admin_env_mock auth_fails) = None \<and>
   firebaseConfig admin_env_mock = FALLBACK_FIREBASE_CONFIG \<and>
   addDocCalls (admin_run admin_env_mock (auth_fails @ submit_soup)) = []"
proof -
  let ?s = "admin_run admin_env_mock [Sdk (AuthStateChanged None)]"
  have one: "signIns ?s = 1" and none: "addDocCalls ?s = []"
    by (simp_all add: admin_env_mock_sel admin_defs)
  have rejected:
    "admin_step admin_env_mock ?s (Sdk (SignInRejected ''auth/network-request-failed'')) =
       admin_run admin_env_mock auth_fails"
    by (simp add: auth_fails_def admin_run_def)
  have "0 < signIns ?s"
    using one by simp
  from auth_failure_placeholder_identity [OF this, of admin_env_mock
      "''auth/network-request-failed''" submit_soup]
  show ?thesis
    unfolding rejected using one none
    by (simp add: admin_run_append admin_env_mock_sel mock_auth_fails_eq)
qed

section \<open>Draft submission\<close>

text \<open>
  Claim C3. In the admin app, from a state in which a submission is let through
  (auth ready, a user id, no error, no submission in flight, not the mock
  configuration), submitting a valid draft (a name that is not empty, a positive
  price) makes exactly one \<^verbatim>\<open>addDoc\<close> call, which is then pending; a second submit
  while it is pending makes none; and when the call succeeds, the draft is reset to
  its empty defaults (empty name, empty description, price 0, category
  \<open>Main Dish\<close>) and the submitting flag is cleared, with that one call the only one
  made.
\<close>

theorem submit_valid_draft_once:
  assumes valid: "name (newProduct s) \<noteq> []" "0 < price (newProduct s)"
    and ready: "\<not> submit_prevented e s"
  shows "addDocCalls (admin_step e s Submit) =
           addDocCalls s @ [(getProductCollectionPath (appId e), new_document s)] \<and>
         addDocPending (admin_step e s Submit) = Suc (addDocPending s) \<and>
         isSubmitting (admin_step e s Submit) \<and>
         addDocCalls (admin_step e (admin_step e s Submit) Submit) =
           addDocCalls (admin_step e s Submit) \<and>
         addDocCalls (admin_step e (admin_step e s Submit) AddDocResolved) =
           addDocCalls s @ [(getProductCollectionPath (appId e), new_document s)] \<and>
         newProduct (admin_step e (admin_step e s Submit) AddDocResolved) = empty_draft \<and>
         \<not> isSubmitting (admin_step e (admin_step e s Submit) AddDocResolved) \<and>
         addDocPending (admin_step e (admin_step e s Submit) AddDocResolved) = addDocPending s"
proof -
  have submitted: "admin_handle e Submit s =
      s\<lparr>error := None, isSubmitting := True,
        addDocCalls := addDocCalls s @ [(getProductCollectionPath (appId e), new_document s)],
        addDocPending := Suc (addDocPending s)\<rparr>"
    using valid ready by (simp add: admin_handle_def handleSubmit_def)
  have first: "addDocCalls (admin_step e s Submit) =
      addDocCalls s @ [(getProductCollectionPath (appId e), new_document s)]"
    "addDocPending (admin_step e s Submit) = Suc (addDocPending s)"
    "isSubmitting (admin_step e s Submit)"
    by (simp_all add: admin_step_def admin_commit_frame submitted)
  have again: "addDocCalls (admin_step e (admin_step e s Submit) Submit) =
      addDocCalls (admin_step e s Submit)"
    using first(3) by (simp add: admin_step_calls submit_prevented_def)
  have "admin_step e (admin_step e s Submit) AddDocResolved =
      admin_commit (admin_step e s Submit)
        (addDoc_resolved ((admin_step e s Submit)\<lparr>addDocPending := addDocPending s\<rparr>))"
    using first(2) by (simp add: admin_step_def [of e "admin_step e s Submit"] admin_handle_def)
  then have
    "addDocCalls (admin_step e (admin_step e s Submit) AddDocResolved) =
       addDocCalls (admin_step e s Submit)"
    "newProduct (admin_step e (admin_step e s Submit) AddDocResolved) = empty_draft"
    "\<not> isSubmitting (admin_step e (admin_step e s Submit) AddDocResolved)"
    "addDocPending (admin_step e (admin_step e s Submit) AddDocResolved) = addDocPending s"
    by (simp_all add: admin_commit_frame addDoc_resolved_def)
  with first again show ?thesis by simp
qed

theorem submit_valid_draft_once_witness:
  "name (newProduct soup_ready) = ''Soup'' \<and> price (newProduct soup_ready) = 5 / 2 \<and>
   \<not> submit_prevented admin_env_real soup_ready \<and>
   addDocPending (admin_step admin_env_real soup_ready Submit) = 1 \<and>
   addDocCalls (admin_step admin_env_real (admin_step admin_env_real soup_ready Submit)
      AddDocResolved) =
     [(''/artifacts/t1/public/data/products'',
       \<lparr>name = ''Soup'', description = [], price = 5 / 2, category = ''Main Dish'',
        available = True, createdAt = ServerTimestamp, createdBy = Some ''admin-1''\<rparr>)] \<and>
   newProduct (admin_step admin_env_real (admin_step admin_env_real soup_ready Submit)
      AddDocResolved) =
     \<lparr>name = [], description = [], price = 0, category = ''Main Dish''\<rparr>"
proof -
  have ready: "\<not> submit_prevented admin_env_real soup_ready"
    by (simp add: soup_ready_eq submit_prevented_def admin_env_real_sel truthy_def)
  have "name (newProduct soup_ready) \<noteq> []" "0 < price (newProduct soup_ready)"
    by (simp_all add: soup_ready_eq)
  from submit_valid_draft_once [OF this ready] ready show ?thesis
    by (simp add: soup_ready_eq new_document_def toFixed2_5_2 admin_env_real_sel
        getProductCollectionPath_def empty_draft_def)
qed

text \<open>
  Claim C4. In the admin app, submitting a draft whose name is empty or whose price
  is not strictly positive makes no \<^verbatim>\<open>addDoc\<close> call, from any state; when the
  first guard lets the submission through, it ends in the validation error, set
  locally.
\<close>

theorem invalid_draft_no_write:
  assumes "name (newProduct s) = [] \<or> price (newProduct s) \<le> 0"
  shows "addDocCalls (admin_step e s Submit) = addDocCalls s \<and>
         addDocPending (admin_step e s Submit) = addDocPending s \<and>
         newProduct (admin_step e s Submit) = newProduct s \<and>
         (\<not> submit_prevented e s \<longrightarrow>
            error (admin_step e s Submit) =
              Some ''Product name is required and price must be greater than 0.'')"
  using assms
  by (auto simp: admin_step_def admin_handle_def handleSubmit_def admin_commit_frame)

theorem invalid_draft_no_write_witness:
  "price (newProduct soup_named) = 0 \<and>
   addDocCalls (admin_step admin_env_real soup_named Submit) = [] \<and>
   addDocPending (admin_step admin_env_real soup_named Submit) = 0 \<and>
   error (admin_step admin_env_real soup_named Submit) =
     Some ''Product name is required and price must be greater than 0.''"
proof -
  have "name (newProduct soup_named) = [] \<or> price (newProduct soup_named) \<le> 0"
    by (simp add: soup_named_eq)
  from invalid_draft_no_write [OF this, of admin_env_real] show ?thesis
    by (simp add: soup_named_eq submit_prevented_def admin_env_real_def truthy_def)
qed

lemma carries_available_step:
  "list_all (carries_available e) (addDocCalls s) \<Longrightarrow>
   list_all (carries_available e) (addDocCalls (admin_step e s ev))"
  by (simp add: admin_step_calls carries_available_def new_document_def submit_prevented_def)

lemma carries_available_run: "list_all (carries_available e) (addDocCalls (admin_run e evs))"
proof (induction evs rule: rev_induct)
  case Nil
  show ?case by (simp add: admin_run_def admin_mount_calls)
next
  case (snoc ev evs)
  then show ?case by (simp add: admin_run_snoc carries_available_step)
qed

text \<open>
  Claim C10. In the admin app, the document of the \<^verbatim>\<open>addDoc\<close> call of a submission
  has the name, description and category of the draft, its price rounded to two
  decimals, the server timestamp sentinel as \<^verbatim>\<open>createdAt\<close>, the user id as
  \<^verbatim>\<open>createdBy\<close>, and \<^verbatim>\<open>available\<close> set to true; and every call made in any run
  carries these three.
\<close>

theorem created_document_fields:
  assumes "\<not> submit_prevented e s" "name (newProduct s) \<noteq> []" "0 < price (newProduct s)"
  shows "addDocCalls (admin_step e s Submit) =
           addDocCalls s @ [(getProductCollectionPath (appId e), new_document s)] \<and>
         name (new_document s) = name (newProduct s) \<and>
         description (new_document s) = description (newProduct s) \<and>
         price (new_document s) = toFixed2 (price (newProduct s)) \<and>
         category (new_document s) = category (newProduct s) \<and>
         createdAt (new_document s) = ServerTimestamp \<and>
         createdBy (new_document s) = userId s \<and>
         available (new_document s) \<and>
         list_all (carries_available e) (addDocCalls (admin_run e evs))"
  using assms by (simp add: admin_step_calls new_document_def carries_available_run)

theorem created_document_fields_witness:
  "\<not> submit_prevented admin_env_real soup_ready \<and>
   addDocCalls (admin_step admin_env_real soup_ready Submit) =
     [(''/artifacts/t1/public/data/products'',
       \<lparr>name = ''Soup'', description = [], price = 5 / 2, category = ''Main Dish'',
        available = True, createdAt = ServerTimestamp, createdBy = Some ''admin-1''\<rparr>)] \<and>
   available (new_document soup_ready)"
proof -
  have "\<not> submit_prevented admin_env_real soup_ready" "name (newProduct soup_ready) \<noteq> []"
    "0 < price (newProduct soup_ready)"
    by (simp_all add: soup_ready_eq submit_prevented_def admin_env_real_def truthy_def)
  from created_document_fields [OF this] this(1) show ?thesis
    by (simp add: soup_submitted_eq)
qed

section \<open>The sort of a snapshot\<close>

lemma mset_insert_by: "mset (insert_by cmp x ys) = add_mset x (mset ys)"
  by (induction ys) simp_all

lemma set_insert_by: "set (insert_by cmp x ys) = insert x (set ys)"
  by (induction ys) auto

lemma sorted_insert_by:
  assumes anti: "\<And>a b. cmp a b < 0 \<longleftrightarrow> 0 < cmp b a"
    and trans: "\<And>a b c. cmp a b \<le> 0 \<Longrightarrow> cmp b c \<le> 0 \<Longrightarrow> cmp a c \<le> 0"
    and sorted: "sorted_wrt (\<lambda>a b. cmp a b \<le> 0) ys"
  shows "sorted_wrt (\<lambda>a b. cmp a b \<le> 0) (insert_by cmp x ys)"
  using sorted
proof (induction ys)
  case Nil
  show ?case by simp
next
  case (Cons y ys)
  show ?case
  proof (cases "cmp x y < 0")
    case True
    then have "cmp x y \<le> 0" by simp
    then have "\<forall>z\<in>set ys. cmp x z \<le> 0"
      using Cons.prems trans by auto
    with True Cons.prems show ?thesis by simp
  next
    case False
    then have "cmp y x \<le> 0"
      using anti [of x y] by simp
    with False Cons show ?thesis
      by (simp add: set_insert_by)
  qed
qed

lemma mset_place_all:
  "mset (foldl (\<lambda>placed x. insert_by cmp x placed) acc xs) = mset acc + mset xs"
  by (induction xs arbitrary: acc) (simp_all add: mset_insert_by)

lemma sorted_place_all:
  assumes anti: "\<And>a b. cmp a b < 0 \<longleftrightarrow> 0 < cmp b a"
    and trans: "\<And>a b c. cmp a b \<le> 0 \<Longrightarrow> cmp b c \<le> 0 \<Longrightarrow> cmp a c \<le> 0"
  shows "sorted_wrt (\<lambda>a b. cmp a b \<le> 0) acc \<Longrightarrow>
         sorted_wrt (\<lambda>a b. cmp a b \<le> 0) (foldl (\<lambda>placed x. insert_by cmp x placed) acc xs)"
proof (induction xs arbitrary: acc)
  case Nil
  then show ?case by simp
next
  case (Cons x xs)
  from sorted_insert_by [of cmp acc x, OF anti trans Cons.prems] Cons.IH
  show ?case by simp
qed

lemma mset_array_sort: "mset (array_sort cmp xs) = mset xs"
  by (simp add: array_sort_def mset_place_all)

lemma sorted_array_sort:
  assumes "\<And>a b. cmp a b < 0 \<longleftrightarrow> 0 < cmp b a"
    and "\<And>a b c. cmp a b \<le> 0 \<Longrightarrow> cmp b c \<le> 0 \<Longrightarrow> cmp a c \<le> 0"
  shows "sorted_wrt (\<lambda>a b. cmp a b \<le> 0) (array_sort cmp xs)"
  unfolding array_sort_def
  by (rule sorted_place_all [OF assms]) simp_all

lemma sort_stores:
  assumes "consistent_comparator lc"
  shows "sorted_wrt (\<lambda>a b. lc (name_or_empty a) (name_or_empty b) \<le> 0)
           (array_sort (compare_stores lc) xs)"
proof -
  have "sorted_wrt (\<lambda>a b. compare_stores lc a b \<le> 0) (array_sort (compare_stores lc) xs)"
  proof (rule sorted_array_sort)
    show "compare_stores lc a b < 0 \<longleftrightarrow> 0 < compare_stores lc b a" for a b
      using assms by (simp add: consistent_comparator_def compare_stores_def)
    show "compare_stores lc a c \<le> 0"
      if "compare_stores lc a b \<le> 0" "compare_stores lc b c \<le> 0" for a b c
      using assms that unfolding consistent_comparator_def compare_stores_def by blast
  qed
  then show ?thesis by (simp add: compare_stores_def)
qed

lemma compare_products_millis: "compare_products a b = created_millis b - created_millis a"
  by (simp add: compare_products_def toMillis_or_0_def created_millis_def
      split: created_field.splits)

lemma sort_products:
  "sorted_wrt (\<lambda>a b. created_millis b \<le> created_millis a) (array_sort compare_products xs)"
proof -
  have "sorted_wrt (\<lambda>a b. compare_products a b \<le> 0) (array_sort compare_products xs)"
    by (rule sorted_array_sort) (auto simp: compare_products_millis)
  then show ?thesis by (simp add: compare_products_millis)
qed

lemma ordinal_compare_consistent: "consistent_comparator ordinal_compare"
  unfolding consistent_comparator_def ordinal_compare_def
  by (auto split: if_splits)

lemma signed_in_eq:
  "admin_run admin_env_real [Sdk (AuthStateChanged (Some ''admin-1''))] =
     \<lparr>error = None, userId = Some ''admin-1'', db = True, authListener = True,
      signInCalls = [], signIns = 0, snapshotListener = True, products = [], loading = True,
      isAuthReady = True, newProduct = empty_draft,
      isSubmitting = False, addDocCalls = [], addDocPending = 0, uuidsDrawn = 0\<rparr>"
  by (simp add: admin_env_real_sel admin_defs)

text \<open>
  Claim C1. For every received snapshot (an event that reaches a registered
  listener runs the callback), the snapshot callback of the customer app
  sets the list to the documents of the snapshot, all of them and no other, sorted
  by name (a missing name as the empty string) under \<^verbatim>\<open>localeCompare\<close>, the
  consistent comparator ECMAScript requires it to be; that of the admin app sets
  the list to the documents of the snapshot in descending order of creation time
  (a missing \<^verbatim>\<open>createdAt\<close> as 0). In both the new list is the same whatever the
  state was before, so nothing of an earlier list is kept or merged and the order
  in which snapshots arrived does not matter; and the loading flag is cleared.
\<close>

theorem snapshot_replaces_list:
  assumes "consistent_comparator (localeCompare ce)"
  shows "mset (stores (customer_onNext ce sdocs s)) = mset sdocs \<and>
         sorted_wrt (\<lambda>a b. localeCompare ce (name_or_empty a) (name_or_empty b) \<le> 0)
           (stores (customer_onNext ce sdocs s)) \<and>
         stores (customer_onNext ce sdocs s) = stores (customer_onNext ce sdocs s') \<and>
         \<not> isLoading (customer_onNext ce sdocs s) \<and>
         mset (products (admin_onNext docs a)) = mset docs \<and>
         sorted_wrt (\<lambda>p q. created_millis q \<le> created_millis p) (products (admin_onNext docs a)) \<and>
         products (admin_onNext docs a) = products (admin_onNext docs a') \<and>
         \<not> loading (admin_onNext docs a) \<and>
         error (admin_onNext docs a) = error a \<and>
         (snapshotListener s \<longrightarrow>
            stores (customer_step ce s (SnapshotNext sdocs)) = stores (customer_onNext ce sdocs s)) \<and>
         (snapshotListener a \<longrightarrow>
            products (admin_step ae a (Sdk (SnapshotNext docs))) = products (admin_onNext docs a))"
  using sort_stores [OF assms, of sdocs] sort_products [of docs]
  by (simp add: customer_onNext_def admin_onNext_def mset_array_sort customer_step_def
      customer_handle_def customer_commit_frame admin_step_def admin_handle_def
      admin_commit_frame)

theorem snapshot_replaces_list_witness:
  "stores (customer_onNext customer_env_t1 [zeta_mart, alpha_deli] customer_initial) =
     [alpha_deli, zeta_mart] \<and>
   \<not> isLoading (customer_onNext customer_env_t1 [zeta_mart, alpha_deli] customer_initial) \<and>
   products (admin_onNext
      [product_doc ''p1'' (Timestamp 1000), product_doc ''p2'' NoTimestamp,
       product_doc ''p3'' (Timestamp 2000)] admin_initial) =
     [product_doc ''p3'' (Timestamp 2000), product_doc ''p1'' (Timestamp 1000),
      product_doc ''p2'' NoTimestamp]"
proof -
  have lc: "consistent_comparator (localeCompare customer_env_t1)"
    by (simp add: customer_env_t1_def ordinal_compare_consistent)
  have "stores (customer_onNext customer_env_t1 [zeta_mart, alpha_deli] customer_initial) =
     [alpha_deli, zeta_mart]"
    by (simp add: customer_onNext_def customer_env_t1_def array_sort_def compare_stores_def
        name_or_empty_def zeta_mart_def alpha_deli_def ordinal_compare_def)
  moreover have "products (admin_onNext
      [product_doc ''p1'' (Timestamp 1000), product_doc ''p2'' NoTimestamp,
       product_doc ''p3'' (Timestamp 2000)] admin_initial) =
     [product_doc ''p3'' (Timestamp 2000), product_doc ''p1'' (Timestamp 1000),
      product_doc ''p2'' NoTimestamp]"
    by (simp add: admin_onNext_def array_sort_def compare_products_def toMillis_or_0_def
        product_doc_def)
  ultimately show ?thesis
    using snapshot_replaces_list [OF lc, of "[zeta_mart, alpha_deli]" customer_initial
        customer_initial _ admin_initial admin_initial]
    by simp
qed

section \<open>Once the error is set\<close>

lemma customer_shows_error_iff: "customer_shows_error s \<longleftrightarrow> truthy (error s)"
  by (simp add: customer_shows_error_def renderContent_def)

lemma admin_shows_error_iff: "admin_shows_error e s \<longleftrightarrow> truthy (error s)"
  by (simp add: admin_shows_error_def admin_render_def)

lemma customer_error_step:
  assumes "truthy (error s)" "\<not> isLoading s"
  shows "truthy (error (customer_step e s ev)) \<and> \<not> isLoading (customer_step e s ev)"
  using assms
  by (cases ev)
    (auto simp: customer_step_def customer_commit_frame customer_handle_def
      customer_onAuthStateChanged_def initFirebase_catch_def customer_onNext_def
      customer_onError_def truthy_def)

lemma customer_error_steps:
  "truthy (error s) \<Longrightarrow> \<not> isLoading s \<Longrightarrow>
   truthy (error (foldl (customer_step e) s evs)) \<and> \<not> isLoading (foldl (customer_step e) s evs)"
proof (induction evs arbitrary: s)
  case Nil
  then show ?case by simp
next
  case (Cons ev evs)
  from customer_error_step [OF Cons.prems, of e ev] Cons.IH show ?case by simp
qed

lemma admin_handle_error:
  assumes "truthy (error s)"
  shows "truthy (error (admin_handle e ev s))"
proof (cases ev)
  case (Sdk x)
  then show ?thesis
    using assms
    by (cases x)
      (auto simp: admin_handle_def admin_onAuthStateChanged_def admin_signIn_resolved_def
        admin_signIn_rejected_def admin_onNext_def admin_onError_def truthy_def
        split: option.splits)
next
  case Submit
  then show ?thesis
    using assms by (simp add: admin_handle_def handleSubmit_def submit_prevented_def) (simp add: truthy_def)
qed (use assms in \<open>simp_all add: admin_handle_def handleInputChange_def addDoc_resolved_def
      addDoc_rejected_def\<close>, simp_all add: truthy_def)

lemma admin_handle_loading:
  assumes "\<not> loading s"
  shows "\<not> loading (admin_handle e ev s)"
proof (cases ev)
  case (Sdk x)
  then show ?thesis
    using assms
    by (cases x)
      (auto simp: admin_handle_def admin_onAuthStateChanged_def admin_signIn_resolved_def
        admin_signIn_rejected_def admin_onNext_def admin_onError_def
        split: option.splits)
qed (use assms in \<open>simp_all add: admin_handle_def handleInputChange_def handleSubmit_def
      addDoc_resolved_def addDoc_rejected_def\<close>)

lemma admin_handle_products:
  assumes "\<not> snapshotListener s"
  shows "products (admin_handle e ev s) = products s"
proof (cases ev)
  case (Sdk x)
  then show ?thesis
    using assms
    by (cases x)
      (auto simp: admin_handle_def admin_onAuthStateChanged_def admin_signIn_resolved_def
        admin_signIn_rejected_def split: option.splits)
qed (simp_all add: admin_handle_def handleInputChange_def handleSubmit_def
      addDoc_resolved_def addDoc_rejected_def)

lemma admin_commit_stops:
  "truthy (error t) \<Longrightarrow> \<not> snapshotListener t \<Longrightarrow> \<not> snapshotListener (admin_commit s t)"
  by (simp add: admin_commit_def listen_products_def)

lemma admin_stopped_step:
  assumes "admin_stopped s"
  shows "admin_stopped (admin_step e s ev) \<and> products (admin_step e s ev) = products s"
  using assms admin_handle_error [of s e ev] admin_handle_loading [of s e ev]
    admin_handle_products [of s e ev]
  by (simp add: admin_stopped_def admin_step_def admin_commit_frame admin_commit_stops
      admin_handle_listener)

lemma admin_stopped_steps:
  "admin_stopped s \<Longrightarrow>
   admin_stopped (foldl (admin_step e) s evs) \<and> products (foldl (admin_step e) s evs) = products s"
proof (induction evs arbitrary: s)
  case Nil
  then show ?case by simp
next
  case (Cons ev evs)
  from admin_stopped_step [OF Cons.prems, of e ev] Cons.IH [of "admin_step e s ev"]
  show ?case by simp
qed

lemma admin_error_callback:
  assumes "admin_inv s" "snapshotListener s"
  shows "error (admin_step e s (Sdk (SnapshotError msg))) =
           Some (''Real-time data error: '' @ msg @ ''. Please verify Firestore rules.'') \<and>
         admin_stopped (admin_step e s (Sdk (SnapshotError msg))) \<and>
         products (admin_step e s (Sdk (SnapshotError msg))) = products s"
proof -
  have "\<not> truthy (error s)"
    using assms by (simp add: admin_inv_def)
  then have "error s \<noteq> Some (''Real-time data error: '' @ msg @ ''. Please verify Firestore rules.'')"
    by (auto simp: truthy_def)
  then show ?thesis
    using assms(2)
    by (simp add: admin_stopped_def admin_step_def admin_handle_def admin_onError_def
        admin_commit_def listen_products_def truthy_def)
qed

section \<open>Subscription errors\<close>

text \<open>
  Claim C7. In both apps, when the error callback of the subscription fires (the
  listener being registered, in a state reached by any run), the error is set to a
  message that asks to check the Firestore rules and the loading flag is false; and
  after any further events the error screen is still what is rendered and the
  loading flag is still false. The admin app has moreover cancelled its listener,
  which is not registered again, and its list of products stays what it was. The
  customer app does not cancel its listener: a later snapshot is stored, and is not
  shown.
\<close>

theorem subscription_error_is_final:
  "(snapshotListener (customer_run ce cevs) \<longrightarrow>
            error (customer_step ce (customer_run ce cevs) (SnapshotError cmsg)) =
              Some ''Failed to fetch store catalog. Check Firestore Rules.'' \<and>
            \<not> isLoading (customer_step ce (customer_run ce cevs) (SnapshotError cmsg)) \<and>
            customer_shows_error
              (foldl (customer_step ce)
                 (customer_step ce (customer_run ce cevs) (SnapshotError cmsg)) clater) \<and>
            \<not> isLoading
              (foldl (customer_step ce)
                 (customer_step ce (customer_run ce cevs) (SnapshotError cmsg)) clater)) \<and>
         (snapshotListener (admin_run ae aevs) \<longrightarrow>
            error (admin_step ae (admin_run ae aevs) (Sdk (SnapshotError amsg))) =
              Some (''Real-time data error: '' @ amsg @ ''. Please verify Firestore rules.'') \<and>
            \<not> loading (admin_step ae (admin_run ae aevs) (Sdk (SnapshotError amsg))) \<and>
            admin_shows_error ae
              (foldl (admin_step ae)
                 (admin_step ae (admin_run ae aevs) (Sdk (SnapshotError amsg))) alater) \<and>
            \<not> loading
              (foldl (admin_step ae)
                 (admin_step ae (admin_run ae aevs) (Sdk (SnapshotError amsg))) alater) \<and>
            \<not> snapshotListener
              (foldl (admin_step ae)
                 (admin_step ae (admin_run ae aevs) (Sdk (SnapshotError amsg))) alater) \<and>
            products
              (foldl (admin_step ae)
                 (admin_step ae (admin_run ae aevs) (Sdk (SnapshotError amsg))) alater) =
              products (admin_run ae aevs))"
proof (intro conjI impI)
  assume l: "snapshotListener (customer_run ce cevs)"
  let ?c = "customer_step ce (customer_run ce cevs) (SnapshotError cmsg)"
  show e: "error ?c = Some ''Failed to fetch store catalog. Check Firestore Rules.''"
    and n: "\<not> isLoading ?c"
    using l
    by (simp_all add: customer_step_def customer_handle_def customer_onError_def
        customer_commit_frame)
  have "truthy (error ?c)"
    using e by (simp add: truthy_def)
  from customer_error_steps [OF this n, of ce clater]
  show "customer_shows_error (foldl (customer_step ce) ?c clater)"
    and "\<not> isLoading (foldl (customer_step ce) ?c clater)"
    by (simp_all add: customer_shows_error_iff)
next
  assume l: "snapshotListener (admin_run ae aevs)"
  let ?a = "admin_step ae (admin_run ae aevs) (Sdk (SnapshotError amsg))"
  note cb = admin_error_callback [OF admin_inv_run l, of ae amsg]
  from cb have stopped: "admin_stopped ?a" and same: "products ?a = products (admin_run ae aevs)"
    by blast+
  from admin_stopped_steps [OF stopped, of ae alater]
  have after: "admin_stopped (foldl (admin_step ae) ?a alater)"
    and kept: "products (foldl (admin_step ae) ?a alater) = products ?a"
    by blast+
  show "error ?a = Some (''Real-time data error: '' @ amsg @ ''. Please verify Firestore rules.'')"
    using cb by blast
  show "\<not> loading ?a"
    using stopped by (simp add: admin_stopped_def)
  show "admin_shows_error ae (foldl (admin_step ae) ?a alater)"
    using after by (simp add: admin_stopped_def admin_shows_error_iff)
  show "\<not> loading (foldl (admin_step ae) ?a alater)"
    using after by (simp add: admin_stopped_def)
  show "\<not> snapshotListener (foldl (admin_step ae) ?a alater)"
    using after by (simp add: admin_stopped_def)
  show "products (foldl (admin_step ae) ?a alater) = products (admin_run ae aevs)"
    using kept same by simp
qed


lemma customer_env_t1_sel:
  "configKeys customer_env_t1 = 6"
  "sdkInit customer_env_t1 = InitOk"
  "initialAuthToken customer_env_t1 = None"
  "localeCompare customer_env_t1 = ordinal_compare"
  by (simp_all add: customer_env_t1_def)

lemma customer_signed_in_eq:
  "customer_run customer_env_t1 [AuthStateChanged (Some ''u1'')] =
     \<lparr>error = None, userId = Some ''u1'', db = True, authListener = True,
      signInCalls = [SignInAnonymously], signIns = 1, snapshotListener = True, stores = [],
      isLoading = True, authReady = True\<rparr>"
  by (simp add: customer_env_t1_sel customer_defs)

lemma sort_zeta_alpha:
  "array_sort (compare_stores ordinal_compare) [zeta_mart, alpha_deli] =
     [alpha_deli, zeta_mart]"
  by (simp add: array_sort_def compare_stores_def name_or_empty_def zeta_mart_def
      alpha_deli_def ordinal_compare_def)

lemma onNext_zeta_alpha:
  "customer_onNext customer_env_t1 [zeta_mart, alpha_deli] s =
     s\<lparr>stores := [alpha_deli, zeta_mart], isLoading := False\<rparr>"
  by (simp add: customer_onNext_def customer_env_t1_sel sort_zeta_alpha)

theorem subscription_error_is_final_witness:
  "snapshotListener (customer_run customer_env_t1 [AuthStateChanged (Some ''u1'')]) \<and>
   renderContent
     (foldl (customer_step customer_env_t1)
        (customer_step customer_env_t1 (customer_run customer_env_t1 [AuthStateChanged (Some ''u1'')])
           (SnapshotError ''permission-denied''))
        [SnapshotNext [zeta_mart, alpha_deli]]) =
     ApplicationError ''Failed to fetch store catalog. Check Firestore Rules.'' \<and>
   snapshotListener (admin_run admin_env_real [Sdk (AuthStateChanged (Some ''admin-1''))]) \<and>
   admin_render admin_env_real
     (foldl (admin_step admin_env_real)
        (admin_step admin_env_real
           (admin_run admin_env_real [Sdk (AuthStateChanged (Some ''admin-1''))])
           (Sdk (SnapshotError ''permission-denied'')))
        [Sdk (SnapshotNext [product_doc ''p1'' (Timestamp 1000)])]) =
     AdminError ''Real-time data error: permission-denied. Please verify Firestore rules.'' \<and>
   products
     (foldl (admin_step admin_env_real)
        (admin_step admin_env_real
           (admin_run admin_env_real [Sdk (AuthStateChanged (Some ''admin-1''))])
           (Sdk (SnapshotError ''permission-denied'')))
        [Sdk (SnapshotNext [product_doc ''p1'' (Timestamp 1000)])]) = []"
proof -
  have "renderContent
     (foldl (customer_step customer_env_t1)
        (customer_step customer_env_t1 (customer_run customer_env_t1 [AuthStateChanged (Some ''u1'')])
           (SnapshotError ''permission-denied''))
        [SnapshotNext [zeta_mart, alpha_deli]]) =
     ApplicationError ''Failed to fetch store catalog. Check Firestore Rules.''"
    by (simp add: customer_signed_in_eq customer_step_def customer_handle_def
        customer_onError_def onNext_zeta_alpha customer_commit_def
        renderContent_def truthy_def)
  moreover have "admin_render admin_env_real
     (foldl (admin_step admin_env_real)
        (admin_step admin_env_real
           (admin_run admin_env_real [Sdk (AuthStateChanged (Some ''admin-1''))])
           (Sdk (SnapshotError ''permission-denied'')))
        [Sdk (SnapshotNext [product_doc ''p1'' (Timestamp 1000)])]) =
     AdminError ''Real-time data error: permission-denied. Please verify Firestore rules.''"
    by (simp add: signed_in_eq admin_step_def admin_handle_def admin_onError_def
        admin_commit_def listen_products_def admin_render_def truthy_def)
  ultimately show ?thesis
    using subscription_error_is_final [of customer_env_t1 "[AuthStateChanged (Some ''u1'')]"
        "''permission-denied''" "[SnapshotNext [zeta_mart, alpha_deli]]"
        admin_env_real "[Sdk (AuthStateChanged (Some ''admin-1''))]" "''permission-denied''"
        "[Sdk (SnapshotNext [product_doc ''p1'' (Timestamp 1000)])]"]
    by (simp add: customer_signed_in_eq signed_in_eq)
qed

section \<open>After a failed write\<close>

lemma admin_error_step: "truthy (error s) \<Longrightarrow> truthy (error (admin_step e s ev))"
  by (simp add: admin_step_def admin_commit_frame admin_handle_error)

lemma error_blocks_writes:
  "truthy (error s) \<Longrightarrow>
   addDocCalls (foldl (admin_step e) s evs) = addDocCalls s \<and>
   truthy (error (foldl (admin_step e) s evs))"
proof (induction evs arbitrary: s)
  case Nil
  then show ?case by simp
next
  case (Cons ev evs)
  have "addDocCalls (admin_step e s ev) = addDocCalls s"
    using Cons.prems by (simp add: admin_step_calls submit_prevented_def)
  with Cons.IH [OF admin_error_step [OF Cons.prems, of e ev]] show ?case by simp
qed

lemma soup_failed_eq:
  "soup_failed =
     \<lparr>error =
        Some ''Failed to add product: Missing or insufficient permissions. Check your Firebase rules.'',
      userId = Some ''admin-1'', db = True, authListener = True,
      signInCalls = [], signIns = 0, snapshotListener = False, products = [], loading = True,
      isAuthReady = True,
      newProduct = \<lparr>name = ''Soup'', description = [], price = 5 / 2, category = ''Main Dish''\<rparr>,
      isSubmitting = False,
      addDocCalls =
        [(''/artifacts/t1/public/data/products'',
          \<lparr>name = ''Soup'', description = [], price = 5 / 2, category = ''Main Dish'',
           available = True, createdAt = ServerTimestamp, createdBy = Some ''admin-1''\<rparr>)],
      addDocPending = 0, uuidsDrawn = 0\<rparr>"
  unfolding soup_failed_def soup_submitted_eq
  by (simp add: admin_step_def admin_handle_def addDoc_rejected_def admin_commit_def
      listen_products_def truthy_def)

text \<open>
  Claim C9 says that after a failed \<^verbatim>\<open>addDoc\<close> call the draft is kept for the user
  to retry. The \<^verbatim>\<open>catch\<close> block does show the message of the failure with the hint
  and leaves the draft as it was, and \<^verbatim>\<open>finally\<close> resets the submitting flag. But
  the error it sets is never cleared: the first guard of \<^verbatim>\<open>handleSubmit\<close> returns on
  it before \<^verbatim>\<open>setError(null)\<close> is reached, and the render shows the error screen
  in place of the form. After the failure no sequence of events makes another
  \<^verbatim>\<open>addDoc\<close> call.
\<close>

theorem failed_write_no_retry:
  "error soup_failed =
     Some ''Failed to add product: Missing or insufficient permissions. Check your Firebase rules.'' \<and>
   newProduct soup_failed =
     \<lparr>name = ''Soup'', description = [], price = 5 / 2, category = ''Main Dish''\<rparr> \<and>
   \<not> isSubmitting soup_failed \<and>
   addDocCalls (admin_step admin_env_real soup_failed Submit) = addDocCalls soup_failed \<and>
   (\<forall>later.
      addDocCalls (foldl (admin_step admin_env_real) soup_failed later) = addDocCalls soup_failed \<and>
      admin_shows_error admin_env_real (foldl (admin_step admin_env_real) soup_failed later))"
proof -
  have set: "truthy (error soup_failed)"
    by (simp add: soup_failed_eq truthy_def)
  then have "submit_prevented admin_env_real soup_failed"
    by (simp add: submit_prevented_def)
  then have "addDocCalls (admin_step admin_env_real soup_failed Submit) = addDocCalls soup_failed"
    by (simp add: admin_step_calls)
  moreover have "\<forall>later.
      addDocCalls (foldl (admin_step admin_env_real) soup_failed later) = addDocCalls soup_failed \<and>
      admin_shows_error admin_env_real (foldl (admin_step admin_env_real) soup_failed later)"
    using error_blocks_writes [OF set, of admin_env_real]
    by (simp add: admin_shows_error_iff)
  ultimately show ?thesis
    by (simp add: soup_failed_eq)
qed

section \<open>Bootstrap failure in the customer app\<close>

text \<open>
  Claim C5 says that a failure of the authentication bootstrap ends data loading in
  the customer app. When the sign-in is rejected, the \<^verbatim>\<open>catch\<close> block sets the
  error and also \<^verbatim>\<open>authReady\<close>; the Firestore handle is there, and the guard of the
  data-fetch effect does not look at the error. So the subscription that the auth
  listener opened stays open after the failure, and when the rejection comes first
  it is the failure that opens it; the next snapshot is sorted and stored.
\<close>

theorem signin_failure_still_loads:
  "error (customer_run customer_env_t1
      [AuthStateChanged None, SignInRejected ''auth/network-request-failed'']) =
     Some ''Initialization Failed: auth/network-request-failed'' \<and>
   snapshotListener (customer_run customer_env_t1
      [AuthStateChanged None, SignInRejected ''auth/network-request-failed'']) \<and>
   stores (customer_run customer_env_t1
      [AuthStateChanged None, SignInRejected ''auth/network-request-failed'',
       SnapshotNext [zeta_mart, alpha_deli]]) = [alpha_deli, zeta_mart] \<and>
   \<not> snapshotListener (customer_run customer_env_t1 []) \<and>
   error (customer_run customer_env_t1 [SignInRejected ''auth/network-request-failed'']) =
     Some ''Initialization Failed: auth/network-request-failed'' \<and>
   snapshotListener (customer_run customer_env_t1 [SignInRejected ''auth/network-request-failed'']) \<and>
   stores (customer_run customer_env_t1
      [SignInRejected ''auth/network-request-failed'',
       SnapshotNext [zeta_mart, alpha_deli]]) = [alpha_deli, zeta_mart]"
  by (simp add: customer_env_t1_sel customer_defs onNext_zeta_alpha)

end
